theory Spec2Isabelle
  imports Main "HOL-Library.Sublist"
begin

section \<open>Python strings\<close>

text \<open>
  A Python \<open>str\<close> is a sequence of Unicode code points, and \<open>len\<close> counts code points.
  A character is therefore modelled by its code point, a natural number; \<open>py\<close> turns an
  ASCII literal into such a string.
\<close>

type_synonym pychar = nat
type_synonym pystr = "pychar list"

definition py :: "string \<Rightarrow> pystr" where
  "py s = map of_char s"

definition LF :: pychar where "LF = 10"
definition CR :: pychar where "CR = 13"
definition TAB :: pychar where "TAB = 9"
definition BACKSLASH :: pychar where "BACKSLASH = 92"
definition DQUOTE :: pychar where "DQUOTE = 34"
definition ELLIPSIS :: pychar where "ELLIPSIS = 8230"

text \<open>\<open>sub in text\<close>: substring test; the empty string is contained in every string.\<close>

fun str_contains :: "pystr \<Rightarrow> pystr \<Rightarrow> bool" where
  "str_contains sub [] = (sub = [])"
| "str_contains sub (c # cs) = (prefix sub (c # cs) \<or> str_contains sub cs)"

text \<open>
  \<open>text.replace(old, new)\<close>: non-overlapping occurrences, leftmost first. With an empty
  \<open>old\<close> Python inserts \<open>new\<close> before every character and at the end.
\<close>

function str_replace :: "pystr \<Rightarrow> pystr \<Rightarrow> pystr \<Rightarrow> pystr" where
  "str_replace old new [] = (if old = [] then new else [])"
| "str_replace old new (c # cs) =
     (if old = [] then new @ c # str_replace old new cs
      else if prefix old (c # cs) then new @ str_replace old new (drop (length old) (c # cs))
      else c # str_replace old new cs)"
  by pat_completeness auto
termination
  by (relation "measure (\<lambda>(old, new, s). length s)") auto

text \<open>\<open>s.rstrip(chars)\<close>: drop the trailing characters that occur in \<open>chars\<close>.\<close>

definition rstrip :: "pystr \<Rightarrow> pystr \<Rightarrow> pystr" where
  "rstrip chars s = rev (dropWhile (\<lambda>c. c \<in> set chars) (rev s))"

text \<open>\<open>sep.join(parts)\<close>.\<close>

fun str_join :: "pystr \<Rightarrow> pystr list \<Rightarrow> pystr" where
  "str_join sep [] = []"
| "str_join sep [x] = x"
| "str_join sep (x # y # r) = x @ sep @ str_join sep (y # r)"

text \<open>Truthiness of an \<open>Optional[str]\<close>: \<open>None\<close> and the empty string are false.\<close>

fun truthy :: "pystr option \<Rightarrow> bool" where
  "truthy None = False"
| "truthy (Some s) = (s \<noteq> [])"

section \<open>The settings read by the converter\<close>

text \<open>
  The Tk variables and the dictionary of the application object that the serializer and
  the validation read. \<open>excel_path\<close> only records whether a workbook has been chosen.
\<close>

record app =
  separator_var :: pystr
  custom_separator_var :: pystr
  quoting_mode_var :: pystr
  quote_choice_var :: pystr
  custom_quote_var :: pystr
  significant_figures :: "pystr \<rightharpoonup> int"
  excel_path :: bool

definition DEFAULT_SEPARATOR :: pystr where
  "DEFAULT_SEPARATOR = py '',''"

definition CUSTOM :: pystr where
  "CUSTOM = py ''Custom'' @ [ELLIPSIS]"

definition get_separator :: "'a app_scheme \<Rightarrow> pystr option" where
  "get_separator self =
     (let value = separator_var self in
      if value = CUSTOM then
        (let custom = custom_separator_var self in if custom \<noteq> [] then Some custom else None)
      else if value = BACKSLASH # py ''t'' then Some [TAB]
      else Some value)"

definition get_quote_char :: "'a app_scheme \<Rightarrow> pystr option" where
  "get_quote_char self =
     (let value = quote_choice_var self in
      if value = CUSTOM then
        (let custom = custom_quote_var self in if custom \<noteq> [] then Some custom else None)
      else Some value)"

datatype dialog = ShowError pystr pystr | ShowInfo pystr pystr

text \<open>
  \<open>validate_settings\<close> returns its verdict together with the message boxes it opened.
\<close>

definition validate_settings :: "'a app_scheme \<Rightarrow> bool \<Rightarrow> bool \<times> dialog list" where
  "validate_settings self show_dialog =
     (let separator = get_separator self in
      if \<not> truthy separator then
        (False, if show_dialog
                then [ShowError (py ''Invalid separator'') (py ''Please provide a non-empty separator.'')]
                else [])
      else
        (let quote_char = get_quote_char self in
         if quoting_mode_var self \<noteq> py ''none'' \<and> \<not> truthy quote_char then
           (False, if show_dialog
                   then [ShowError (py ''Invalid quote'') (py ''Please provide a quote character.'')]
                   else [])
         else if truthy quote_char \<and> length (the quote_char) \<noteq> 1 then
           (False, if show_dialog
                   then [ShowError (py ''Invalid quote'') (py ''Quote character must be a single character.'')]
                   else [])
         else (True, [])))"

section \<open>Quoting and escaping (the closures of \<open>iter_csv_lines\<close>)\<close>

text \<open>
  The first lines of \<open>iter_csv_lines\<close> resolve the separator and the quote character:
  \<open>self.get_separator() or DEFAULT_SEPARATOR\<close> and
  \<open>configured_quote if configured_quote else '"'\<close>.
\<close>

definition resolved_separator :: "'a app_scheme \<Rightarrow> pystr" where
  "resolved_separator self =
     (if truthy (get_separator self) then the (get_separator self) else DEFAULT_SEPARATOR)"

definition resolved_quote_char :: "'a app_scheme \<Rightarrow> pystr" where
  "resolved_quote_char self =
     (let configured_quote = get_quote_char self in
      if truthy configured_quote then the configured_quote else [DQUOTE])"

text \<open>
  The nested functions close over \<open>separator\<close>, \<open>quoting_mode\<close> and \<open>quote_char\<close>;
  the model passes them as the first three arguments.
\<close>

definition needs_quote :: "pystr \<Rightarrow> pystr \<Rightarrow> pystr \<Rightarrow> pystr \<Rightarrow> bool \<Rightarrow> bool" where
  "needs_quote separator quoting_mode quote_char text is_text =
     (if quoting_mode = py ''all'' then True
      else if quoting_mode = py ''text'' \<and> is_text then True
      else if separator \<noteq> [] \<and> str_contains separator text then True
      else if str_contains [LF] text \<or> str_contains [CR] text then True
      else if quote_char \<noteq> [] \<and> str_contains quote_char text then True
      else False)"

definition escape_text :: "pystr \<Rightarrow> pystr \<Rightarrow> pystr" where
  "escape_text quote_char text = str_replace quote_char (quote_char @ quote_char) text"

definition format_cells :: "pystr \<Rightarrow> pystr \<Rightarrow> pystr \<Rightarrow> (pystr \<times> bool) list \<Rightarrow> pystr" where
  "format_cells separator quoting_mode quote_char cells =
     str_join separator
       (map (\<lambda>(text, is_text).
               if needs_quote separator quoting_mode quote_char text is_text
               then quote_char @ escape_text quote_char text @ quote_char
               else text) cells)"



section \<open>Decimal digits\<close>

definition ZERO :: pychar where "ZERO = 48"

text \<open>The decimal digits of a natural number, most significant first.\<close>

fun digits :: "nat \<Rightarrow> pystr" where
  "digits n = (if n < 10 then [ZERO + n] else digits (n div 10) @ [ZERO + n mod 10])"

declare digits.simps [simp del]

text \<open>\<open>"%0wd" % n\<close> for a non-negative \<open>n\<close>: at least \<open>w\<close> digits, padded with zeros.\<close>

definition zpad :: "nat \<Rightarrow> nat \<Rightarrow> pystr" where
  "zpad w n = replicate (w - length (digits n)) ZERO @ digits n"

text \<open>
  \<open>str(n)\<close> for a Python \<open>int\<close> (the interpreter's configurable cap on the number of
  digits it converts is not part of the model).
\<close>

definition str_int :: "int \<Rightarrow> pystr" where
  "str_int n = (if n < 0 then py ''-'' @ digits (nat (- n)) else digits (nat n))"

section \<open>Floats and the \<open>g\<close> presentation type\<close>

datatype py_error = ValueError | TypeError | OverflowError

text \<open>
  A Python \<open>float\<close> is an IEEE double. \<open>Finite m e\<close> is the double whose exact value is
  \<open>m * 2 ^ e\<close> (positive zero when \<open>m = 0\<close>).
\<close>

datatype pyfloat = Finite int int | NegZero | PosInf | NegInf | NaN

text \<open>
  \<open>float(n)\<close> for a Python \<open>int\<close>: the nearest double, ties to the even mantissa of 53
  bits; \<open>OverflowError\<close> when that is out of range. \<open>bit_length\<close> is \<open>int.bit_length\<close>.
\<close>

fun bit_length :: "nat \<Rightarrow> nat" where
  "bit_length n = (if n = 0 then 0 else Suc (bit_length (n div 2)))"

declare bit_length.simps [simp del]

definition int_to_float :: "int \<Rightarrow> py_error + pyfloat" where
  "int_to_float n =
     (let a = nat \<bar>n\<bar>; k = bit_length a - 53 in
      if k = 0 then Inr (Finite n 0)
      else
        (let q = a div 2 ^ k; r = a mod 2 ^ k; half = 2 ^ (k - 1);
             q' = (if half < r \<or> (r = half \<and> odd q) then q + 1 else q)
         in if 2 ^ 1024 \<le> q' * 2 ^ k then Inl OverflowError
            else Inr (Finite (sgn n * int q') (int k))))"

text \<open>
  \<open>format(x, ".pg")\<close> on a positive value \<open>N / D\<close>. The value is rounded to \<open>p\<close>
  significant digits, ties to even, on its exact decimal expansion; \<open>X\<close> is the decimal
  exponent of the rounded value. Scientific notation is used when \<open>X < -4\<close> or
  \<open>X \<ge> p\<close>; trailing zeros of the digits are dropped, and the point with them when
  no digit follows it.
\<close>

definition pow10_le :: "nat \<Rightarrow> nat \<Rightarrow> int \<Rightarrow> bool" where
  "pow10_le N D k = (if 0 \<le> k then D * 10 ^ nat k \<le> N else D \<le> N * 10 ^ nat (- k))"

definition decimal_exponent :: "nat \<Rightarrow> nat \<Rightarrow> int" where
  "decimal_exponent N D =
     (let k = int (length (digits N)) - int (length (digits D)) in
      if pow10_le N D k then k else k - 1)"

definition round_half_even :: "nat \<Rightarrow> nat \<Rightarrow> nat" where
  "round_half_even num den =
     (let q = num div den; r = num mod den in
      if den < 2 * r \<or> (2 * r = den \<and> odd q) then q + 1 else q)"

definition scaled_digits :: "nat \<Rightarrow> nat \<Rightarrow> int \<Rightarrow> nat" where
  "scaled_digits N D s =
     (if 0 \<le> s then round_half_even (N * 10 ^ nat s) D
      else round_half_even N (D * 10 ^ nat (- s)))"

definition format_g_finite :: "nat \<Rightarrow> nat \<Rightarrow> nat \<Rightarrow> pystr" where
  "format_g_finite N D p =
     (let X0 = decimal_exponent N D;
          R0 = scaled_digits N D (int p - 1 - X0);
          R = (if R0 = 10 ^ p then 10 ^ (p - 1) else R0);
          X = (if R0 = 10 ^ p then X0 + 1 else X0);
          ds = rstrip (py ''0'') (digits R)
      in if X < - 4 \<or> int p \<le> X then
           take 1 ds @ (if 1 < length ds then py ''.'' @ drop 1 ds else [])
           @ py ''e'' @ (if X < 0 then py ''-'' else py ''+'') @ zpad 2 (nat \<bar>X\<bar>)
         else if X < 0 then py ''0.'' @ replicate (nat (- X - 1)) ZERO @ ds
         else if int (length ds) \<le> X + 1 then ds @ replicate (nat (X + 1) - length ds) ZERO
         else take (nat (X + 1)) ds @ py ''.'' @ drop (nat (X + 1)) ds)"

definition INT_MAX :: int where "INT_MAX = 2147483647"

text \<open>
  \<open>format(x, f".{sig_figs}g")\<close>. A negative precision is not a format specification and
  one above \<open>INT_MAX\<close> is refused; precision \<open>0\<close> counts as \<open>1\<close>.
\<close>

definition format_g :: "pyfloat \<Rightarrow> int \<Rightarrow> py_error + pystr" where
  "format_g x sig_figs =
     (if sig_figs < 0 \<or> INT_MAX < sig_figs then Inl ValueError
      else
        (let p = max 1 (nat sig_figs) in
         Inr (case x of
                NaN \<Rightarrow> py ''nan''
              | PosInf \<Rightarrow> py ''inf''
              | NegInf \<Rightarrow> py ''-inf''
              | NegZero \<Rightarrow> py ''-0''
              | Finite m e \<Rightarrow>
                  if m = 0 then py ''0''
                  else (if m < 0 then py ''-'' else [])
                       @ format_g_finite (nat \<bar>m\<bar> * 2 ^ nat e) (2 ^ nat (- e)) p)))"

section \<open>Numbers as the formatter sees them\<close>

text \<open>
  \<open>convert_value\<close> accepts every instance of \<open>numbers.Number\<close> that is not a \<open>bool\<close>
  (\<open>int\<close>, \<open>float\<close>, \<open>complex\<close>, \<open>Decimal\<close>, \<open>Fraction\<close>, ...), and the code uses such
  a value through three operations only: \<open>pd.isna(value)\<close>, \<open>str(value)\<close> and
  \<open>float(value)\<close>, which may raise. A number is modelled by what these return.
\<close>

record number =
  num_isna :: bool
  num_str :: pystr
  num_float :: "py_error + pyfloat"

definition py_int :: "int \<Rightarrow> number" where
  "py_int n = \<lparr>num_isna = False, num_str = str_int n, num_float = int_to_float n\<rparr>"

text \<open>A Python \<open>float\<close> with its \<open>repr\<close>; a NaN is a missing value for pandas.\<close>

definition py_float :: "pyfloat \<Rightarrow> pystr \<Rightarrow> number" where
  "py_float x repr = \<lparr>num_isna = (x = NaN), num_str = repr, num_float = Inr x\<rparr>"

text \<open>The body of the \<open>try\<close> in \<open>format_number\<close>: \<open>format(float(value), f".{sig_figs}g")\<close>.\<close>

definition format_attempt :: "number \<Rightarrow> int \<Rightarrow> py_error + pystr" where
  "format_attempt value sig_figs =
     (case num_float value of Inl err \<Rightarrow> Inl err | Inr x \<Rightarrow> format_g x sig_figs)"

definition format_number :: "number \<Rightarrow> int option \<Rightarrow> pystr" where
  "format_number value sig_figs =
     (case sig_figs of
        None \<Rightarrow> num_str value
      | Some p \<Rightarrow>
          (case format_attempt value p of
             Inl err \<Rightarrow> num_str value
           | Inr formatted \<Rightarrow>
               if str_contains (py ''.'') formatted
               then (let stripped = rstrip (py ''.'') (rstrip (py ''0'') formatted)
                     in if stripped \<noteq> [] then stripped else py ''0'')
               else formatted))"

section \<open>Dates and times\<close>

text \<open>
  \<open>datetime.date\<close>, its subclass \<open>datetime.datetime\<close> and pandas' subclass
  \<open>Timestamp\<close> of that, which adds nanoseconds. \<open>tzinfo\<close> holds the UTC offset in
  microseconds of an aware value and is \<open>None\<close> for a naive one.
\<close>

record date =
  year :: nat
  month :: nat
  day :: nat

record datetime = date +
  hour :: nat
  minute :: nat
  second :: nat
  microsecond :: nat
  tzinfo :: "int option"

record timestamp = datetime +
  nanosecond :: nat

definition date_isoformat :: "'a date_scheme \<Rightarrow> pystr" where
  "date_isoformat d = zpad 4 (year d) @ py ''-'' @ zpad 2 (month d) @ py ''-'' @ zpad 2 (day d)"

definition format_offset :: "int \<Rightarrow> pystr" where
  "format_offset off =
     (let a = nat \<bar>off\<bar>;
          hh = a div 3600000000;
          mm = (a mod 3600000000) div 60000000;
          ss = (a mod 60000000) div 1000000;
          us = a mod 1000000
      in (if off < 0 then py ''-'' else py ''+'') @ zpad 2 hh @ py '':'' @ zpad 2 mm
         @ (if ss \<noteq> 0 \<or> us \<noteq> 0
            then py '':'' @ zpad 2 ss @ (if us \<noteq> 0 then py ''.'' @ zpad 6 us else [])
            else []))"

definition datetime_isoformat :: "'a datetime_scheme \<Rightarrow> pystr" where
  "datetime_isoformat d =
     date_isoformat d @ py ''T''
     @ zpad 2 (hour d) @ py '':'' @ zpad 2 (minute d) @ py '':'' @ zpad 2 (second d)
     @ (if microsecond d \<noteq> 0 then py ''.'' @ zpad 6 (microsecond d) else [])
     @ (case tzinfo d of None \<Rightarrow> [] | Some off \<Rightarrow> format_offset off)"

text \<open>
  \<open>Timestamp.isoformat()\<close>: the \<open>datetime\<close> form, with the nanoseconds put in before
  the six characters of the offset when there are any.
\<close>

definition timestamp_isoformat :: "'a timestamp_scheme \<Rightarrow> pystr" where
  "timestamp_isoformat ts =
     (let base = datetime_isoformat ts in
      if nanosecond ts = 0 then base
      else
        (let base1 = (if tzinfo ts \<noteq> None then take (length base - 6) base else base);
             base2 = (if tzinfo ts \<noteq> None then drop (length base - 6) base else [])
         in base1
            @ (if microsecond ts \<noteq> 0 then zpad 3 (nanosecond ts)
               else py ''.'' @ zpad 9 (nanosecond ts))
            @ base2))"

section \<open>Cell values and \<open>convert_value\<close>\<close>

text \<open>
  The values a cell of the frame can hold, by the most specific class the chain of
  \<open>isinstance\<close> tests tells apart. \<open>PdTimedelta\<close> carries \<open>str(value)\<close>. \<open>PyObject\<close> is
  any other object: the outcome of \<open>value.isoformat()\<close> when it has that attribute, and
  \<open>str(value)\<close>.
\<close>

datatype cell =
    PyNone
  | PdNA
  | PdNaT
  | PdTimestamp timestamp
  | PyDatetime datetime
  | PyDate date
  | PdTimedelta pystr
  | PyNumber number
  | PyBool bool
  | PyStr pystr
  | PyObject "(py_error + pystr) option" pystr

fun pd_isna :: "cell \<Rightarrow> bool" where
  "pd_isna PyNone = True"
| "pd_isna PdNA = True"
| "pd_isna PdNaT = True"
| "pd_isna (PyNumber n) = num_isna n"
| "pd_isna _ = False"

definition midnight :: "'a datetime_scheme \<Rightarrow> bool" where
  "midnight d = (hour d = 0 \<and> minute d = 0 \<and> second d = 0 \<and> microsecond d = 0)"

text \<open>
  \<open>convert_value\<close> closes over \<open>self.significant_figures\<close>, the first argument here.
  The three missing values never get past the \<open>pd.isna\<close> test; their branches give the
  \<open>str(value)\<close> of the last line of the source.
\<close>

definition convert_value :: "(pystr \<rightharpoonup> int) \<Rightarrow> cell \<Rightarrow> pystr \<Rightarrow> pystr \<times> bool" where
  "convert_value sig_figs value column =
     (if pd_isna value then ([], False)
      else case value of
        PdTimestamp ts \<Rightarrow>
          if tzinfo ts \<noteq> None then (timestamp_isoformat ts, False)
          else if midnight ts then (date_isoformat ts, False)
          else (timestamp_isoformat ts, False)
      | PyDatetime d \<Rightarrow>
          if tzinfo d \<noteq> None then (datetime_isoformat d, False)
          else if midnight d then (date_isoformat d, False)
          else (datetime_isoformat d, False)
      | PyDate d \<Rightarrow> (date_isoformat d, False)
      | PdTimedelta s \<Rightarrow> (s, False)
      | PyNumber n \<Rightarrow> (format_number n (sig_figs column), False)
      | PyBool b \<Rightarrow> (if b then py ''TRUE'' else py ''FALSE'', False)
      | PyObject isofmt s \<Rightarrow>
          (case isofmt of Some (Inr r) \<Rightarrow> (r, False) | _ \<Rightarrow> (s, True))
      | PyStr s \<Rightarrow> (s, True)
      | PyNone \<Rightarrow> (py ''None'', True)
      | PdNA \<Rightarrow> (py ''<NA>'', True)
      | PdNaT \<Rightarrow> (py ''NaT'', True))"

section \<open>The line generator \<open>iter_csv_lines\<close>\<close>

text \<open>
  A frame is its column labels and its rows, one value per column; \<open>len(df)\<close> is the
  number of rows. Column labels are strings, so \<open>str(col)\<close> is the label itself.
\<close>

record dataframe =
  columns :: "pystr list"
  rows :: "cell list list"

text \<open>
  Running the generator to its end produces a trace: the lines it yields and the calls
  of the progress callback, in the order they happen.
\<close>

datatype event = Yield pystr | Progress nat nat

fun yielded :: "event list \<Rightarrow> pystr list" where
  "yielded [] = []"
| "yielded (Yield s # es) = s # yielded es"
| "yielded (Progress i n # es) = yielded es"

fun progress_calls :: "event list \<Rightarrow> (nat \<times> nat) list" where
  "progress_calls [] = []"
| "progress_calls (Yield s # es) = progress_calls es"
| "progress_calls (Progress i n # es) = (i, n) # progress_calls es"

definition PREVIEW_ROW_LIMIT :: int where "PREVIEW_ROW_LIMIT = 20"

definition sys_maxsize :: int where "sys_maxsize = 2 ^ 63 - 1"

text \<open>
  \<open>islice(row_iter, limit)\<close> refuses a stop that is negative or above \<open>sys.maxsize\<close>.
\<close>

definition islice :: "'a list \<Rightarrow> int \<Rightarrow> py_error + 'a list" where
  "islice xs limit =
     (if limit < 0 \<or> sys_maxsize < limit then Inl ValueError else Inr (take (nat limit) xs))"

text \<open>
  The \<open>for\<close> loop over the rows, \<open>idx\<close> counting from the value given. \<open>line_of\<close> is
  the line of one row, \<open>report\<close> is \<open>progress_callback and limit is None\<close>.
\<close>

fun row_loop :: "(cell list \<Rightarrow> pystr) \<Rightarrow> bool \<Rightarrow> nat \<Rightarrow> nat \<Rightarrow> cell list list \<Rightarrow> event list" where
  "row_loop line_of report total_rows idx [] = []"
| "row_loop line_of report total_rows idx (row # rest) =
     Yield (line_of row)
     # (if report \<and> idx mod 1000 = 0 then [Progress idx total_rows] else [])
     @ row_loop line_of report total_rows (idx + 1) rest"

text \<open>The line of one data row: \<open>convert_value\<close> on every cell, then \<open>format_cells\<close>.\<close>

definition row_line :: "'a app_scheme \<Rightarrow> pystr list \<Rightarrow> cell list \<Rightarrow> pystr" where
  "row_line self cols row =
     format_cells (resolved_separator self) (quoting_mode_var self) (resolved_quote_char self)
       (map (\<lambda>(value, column). convert_value (significant_figures self) value column)
            (zip row cols))"

definition header_line :: "'a app_scheme \<Rightarrow> pystr list \<Rightarrow> pystr" where
  "header_line self cols =
     format_cells (resolved_separator self) (quoting_mode_var self) (resolved_quote_char self)
       (map (\<lambda>col. (col, True)) cols)"

text \<open>
  \<open>iter_csv_lines(df, limit, progress_callback)\<close>, consumed to the end: the trace, and
  the exception that ended it if one did. \<open>progress_callback\<close> tells whether a callback
  was passed.
\<close>

definition iter_csv_lines ::
  "'a app_scheme \<Rightarrow> dataframe \<Rightarrow> int option \<Rightarrow> bool \<Rightarrow> event list \<times> py_error option" where
  "iter_csv_lines self df limit progress_callback =
     (let total_rows = length (rows df);
          report = (progress_callback \<and> limit = None);
          start = (if report then [Progress 0 total_rows] else [])
                  @ [Yield (header_line self (columns df))]
      in case (case limit of None \<Rightarrow> Inr (rows df) | Some n \<Rightarrow> islice (rows df) n) of
           Inl err \<Rightarrow> (start, Some err)
         | Inr row_iter \<Rightarrow>
             (start
              @ row_loop (row_line self (columns df)) report total_rows 1 row_iter
              @ (if report then [Progress total_rows total_rows] else []),
              None))"

section \<open>Preview and save\<close>

text \<open>
  \<open>display_preview\<close>: the lines of a bounded pass joined by line feeds.
\<close>

definition display_preview :: "'a app_scheme \<Rightarrow> dataframe \<Rightarrow> pystr" where
  "display_preview self df =
     str_join [LF] (yielded (fst (iter_csv_lines self df (Some PREVIEW_ROW_LIMIT) False)))"

text \<open>
  \<open>refresh_preview\<close>, given the frame that \<open>read_excel\<close> loads: the new content of the
  preview pane, or \<open>None\<close> when the pane is left as it is.
\<close>

definition refresh_preview :: "'a app_scheme \<Rightarrow> dataframe \<Rightarrow> pystr option" where
  "refresh_preview self df =
     (if \<not> excel_path self then None
      else if \<not> fst (validate_settings self False) then None
      else Some (display_preview self df))"

text \<open>
  \<open>save_csv\<close>, given the file name the save dialog returns (empty when cancelled): the
  message boxes shown, and the output path handed to the conversion thread if one is
  started.
\<close>

definition save_csv :: "'a app_scheme \<Rightarrow> pystr \<Rightarrow> dialog list \<times> pystr option" where
  "save_csv self filename =
     (if \<not> excel_path self then
        ([ShowInfo (py ''Select file'') (py ''Please choose an Excel file first.'')], None)
      else
        (let checked = validate_settings self True in
         if \<not> fst checked then (snd checked, None)
         else if filename = [] then ([], None)
         else ([], Some filename)))"

section \<open>Facts about strings\<close>

lemma str_contains_single: "str_contains [x] text = (x \<in> set text)"
  by (induction "text") auto

lemma str_replace_single:
  "str_replace [q] [q, q] text = concat (map (\<lambda>x. if x = q then [q, q] else [x]) text)"
  by (induction "text") auto



lemma resolved_separator_nonempty: "resolved_separator self \<noteq> []"
  by (cases "get_separator self") (auto simp: resolved_separator_def DEFAULT_SEPARATOR_def py_def)

lemma resolved_quote_char_nonempty: "resolved_quote_char self \<noteq> []"
  by (cases "get_quote_char self") (auto simp: resolved_quote_char_def Let_def)

lemma needs_quote_iff:
  "needs_quote separator quoting_mode quote_char text is_text =
     (quoting_mode = py ''all'' \<or> (quoting_mode = py ''text'' \<and> is_text)
      \<or> (separator \<noteq> [] \<and> str_contains separator text)
      \<or> LF \<in> set text \<or> CR \<in> set text
      \<or> (quote_char \<noteq> [] \<and> str_contains quote_char text))"
  by (simp add: needs_quote_def str_contains_single)

lemma format_cells_single:
  "format_cells separator quoting_mode quote_char [(text, is_text)] =
     (if needs_quote separator quoting_mode quote_char text is_text
      then quote_char @ escape_text quote_char text @ quote_char
      else text)"
  by (simp add: format_cells_def)

section \<open>Quoting decision\<close>

text \<open>
  C1. With the separator and quote character that \<open>iter_csv_lines\<close> resolves, mode
  \<open>all\<close> quotes every field; mode \<open>text\<close> quotes a field exactly when it is text-like or
  its text contains the separator, a line feed or carriage return, or the quote character;
  mode \<open>none\<close> quotes exactly when the text contains one of those.
\<close>

theorem needs_quote_by_mode:
  "needs_quote (resolved_separator self) (py ''all'') (resolved_quote_char self) text is_text
   \<and> needs_quote (resolved_separator self) (py ''text'') (resolved_quote_char self) text is_text
       = (is_text \<or> str_contains (resolved_separator self) text
          \<or> LF \<in> set text \<or> CR \<in> set text
          \<or> str_contains (resolved_quote_char self) text)
   \<and> needs_quote (resolved_separator self) (py ''none'') (resolved_quote_char self) text is_text
       = (str_contains (resolved_separator self) text
          \<or> LF \<in> set text \<or> CR \<in> set text
          \<or> str_contains (resolved_quote_char self) text)"
  by (simp add: needs_quote_iff resolved_separator_nonempty resolved_quote_char_nonempty py_def)

lemma replicate_numeral: "replicate (numeral k) x = x # replicate (pred_numeral k) x"
  by (simp add: numeral_eq_Suc)

lemma digits_small: "n < 10 \<Longrightarrow> digits n = [ZERO + n]"
  by (simp add: digits.simps)

lemmas eval_defs = py_def DQUOTE_def LF_def CR_def TAB_def BACKSLASH_def ELLIPSIS_def ZERO_def
  CUSTOM_def DEFAULT_SEPARATOR_def get_separator_def get_quote_char_def resolved_separator_def
  resolved_quote_char_def Let_def

section \<open>Escaping and the round trip\<close>

lemma escape_text_single:
  "escape_text [q] text = concat (map (\<lambda>x. if x = q then [q, q] else [x]) text)"
  by (simp add: escape_text_def str_replace_single)



text \<open>
  C10. When \<open>get_quote_char\<close> gives nothing (no quote character configured), the
  serializer uses the double quote: a field that needs quoting is wrapped in double
  quotes with the double quotes inside it doubled, and a field containing the separator,
  a line break or a double quote does need quoting in every mode. Such a configuration
  passes \<open>validate_settings\<close> when the quoting mode is \<open>none\<close>.
\<close>

theorem empty_quote_char_defaults_to_double_quote:
  assumes "\<not> truthy (get_quote_char self)"
  shows "resolved_quote_char self = [DQUOTE]
         \<and> format_cells (resolved_separator self) (quoting_mode_var self) (resolved_quote_char self)
              [(text, is_text)]
            = (if needs_quote (resolved_separator self) (quoting_mode_var self) [DQUOTE] text is_text
               then [DQUOTE] @ concat (map (\<lambda>x. if x = DQUOTE then [DQUOTE, DQUOTE] else [x]) text)
                    @ [DQUOTE]
               else text)
         \<and> (str_contains (resolved_separator self) text \<or> LF \<in> set text \<or> CR \<in> set text
              \<or> DQUOTE \<in> set text
             \<longrightarrow> needs_quote (resolved_separator self) (quoting_mode_var self) [DQUOTE] text is_text)
         \<and> (quoting_mode_var self = py ''none'' \<and> truthy (get_separator self)
             \<longrightarrow> validate_settings self show_dialog = (True, []))"
  using assms
  by (auto simp: resolved_quote_char_def format_cells_single escape_text_single needs_quote_iff
        str_contains_single resolved_separator_nonempty validate_settings_def Let_def)

theorem empty_quote_char_defaults_to_double_quote_witness:
  "\<not> truthy (get_quote_char
       \<lparr>separator_var = py '','', custom_separator_var = [], quoting_mode_var = py ''none'',
        quote_choice_var = CUSTOM, custom_quote_var = [], significant_figures = Map.empty,
        excel_path = True\<rparr>)
   \<and> format_cells (py '','') (py ''none'')
        (resolved_quote_char
          \<lparr>separator_var = py '','', custom_separator_var = [], quoting_mode_var = py ''none'',
           quote_choice_var = CUSTOM, custom_quote_var = [], significant_figures = Map.empty,
           excel_path = True\<rparr>)
        [(py ''a,b'', False)]
      = [DQUOTE] @ py ''a,b'' @ [DQUOTE]
   \<and> validate_settings
        \<lparr>separator_var = py '','', custom_separator_var = [], quoting_mode_var = py ''none'',
         quote_choice_var = CUSTOM, custom_quote_var = [], significant_figures = Map.empty,
         excel_path = True\<rparr> True = (True, [])"
  using empty_quote_char_defaults_to_double_quote
    [of "\<lparr>separator_var = py '','', custom_separator_var = [], quoting_mode_var = py ''none'',
         quote_choice_var = CUSTOM, custom_quote_var = [], significant_figures = Map.empty,
         excel_path = True\<rparr>" "py ''a,b''" False True]
  by (simp add: eval_defs needs_quote_iff)

section \<open>Missing values\<close>

text \<open>
  C7. A missing value (\<open>pd.isna\<close>) is formatted as the empty string, not text-like,
  and in mode \<open>text\<close> that empty field is not quoted: it is emitted as the empty string.
\<close>

theorem missing_value_empty_unquoted:
  assumes "pd_isna value"
  shows "convert_value sig_figs value column = ([], False)
         \<and> \<not> needs_quote (resolved_separator self) (py ''text'') (resolved_quote_char self) [] False
         \<and> format_cells (resolved_separator self) (py ''text'') (resolved_quote_char self)
              [convert_value sig_figs value column] = []"
  using assms
  by (simp add: convert_value_def format_cells_single needs_quote_iff resolved_separator_nonempty
        resolved_quote_char_nonempty py_def)

theorem missing_value_empty_unquoted_witness:
  "pd_isna PyNone \<and> pd_isna (PyNumber (py_float NaN (py ''nan'')))
   \<and> convert_value Map.empty PyNone (py ''x'') = ([], False)
   \<and> convert_value Map.empty (PyNumber (py_float NaN (py ''nan''))) (py ''x'') = ([], False)
   \<and> format_cells (py '','') (py ''text'') [DQUOTE] [convert_value Map.empty PyNone (py ''x'')] = []"
  using missing_value_empty_unquoted
    [of PyNone Map.empty "py ''x''"
        "\<lparr>separator_var = py '','', custom_separator_var = [], quoting_mode_var = py ''text'',
          quote_choice_var = [DQUOTE], custom_quote_var = [], significant_figures = Map.empty,
          excel_path = True\<rparr>"]
    missing_value_empty_unquoted
    [of "PyNumber (py_float NaN (py ''nan''))" Map.empty "py ''x''"
        "\<lparr>separator_var = py '','', custom_separator_var = [], quoting_mode_var = py ''text'',
          quote_choice_var = [DQUOTE], custom_quote_var = [], significant_figures = Map.empty,
          excel_path = True\<rparr>"]
  by (simp add: eval_defs py_float_def format_cells_single needs_quote_iff)

section \<open>Lines and progress reports of a pass\<close>

lemma yielded_append: "yielded (xs @ ys) = yielded xs @ yielded ys"
  by (induction xs rule: yielded.induct) auto

lemma progress_calls_append: "progress_calls (xs @ ys) = progress_calls xs @ progress_calls ys"
  by (induction xs rule: progress_calls.induct) auto

lemma yielded_row_loop: "yielded (row_loop line_of report total_rows idx rs) = map line_of rs"
  by (induction rs arbitrary: idx) (auto simp: yielded_append)

lemma progress_calls_row_loop_silent: "progress_calls (row_loop line_of False total_rows idx rs) = []"
  by (induction rs arbitrary: idx) auto

lemma progress_calls_row_loop:
  "progress_calls (row_loop line_of True total_rows idx rs)
     = map (\<lambda>k. (k, total_rows)) (filter (\<lambda>k. k mod 1000 = 0) [idx..<idx + length rs])"
proof (induction rs arbitrary: idx)
  case Nil
  show ?case by simp
next
  case (Cons r rs)
  have "[idx..<idx + length (r # rs)] = idx # [Suc idx..<Suc idx + length rs]"
    by (subst upt_rec) simp
  with Cons [of "Suc idx"] show ?case
    by (simp add: progress_calls_append)
qed

lemma row_loop_trace:
  "row_loop line_of report total_rows idx rs
     = concat (map (\<lambda>(k, row). Yield (line_of row)
                      # (if report \<and> k mod 1000 = 0 then [Progress k total_rows] else []))
                   (zip [idx..<idx + length rs] rs))"
proof (induction rs arbitrary: idx)
  case Nil
  show ?case by simp
next
  case (Cons r rs)
  have "[idx..<idx + length (r # rs)] = idx # [Suc idx..<Suc idx + length rs]"
    by (subst upt_rec) simp
  with Cons [of "Suc idx"] show ?case
    by simp
qed

text \<open>
  C5. A pass without a row limit yields the header line and then the line of every row,
  in row order: \<open>len(df) + 1\<close> lines. With a row limit \<open>n\<close> (a count that
  \<open>islice\<close> accepts) it yields the header line and the lines of the first \<open>n\<close> rows:
  \<open>min(n, len(df)) + 1\<close> lines. Neither pass ends in an exception.
\<close>

theorem line_count:
  "yielded (fst (iter_csv_lines self df None progress_callback))
     = header_line self (columns df) # map (row_line self (columns df)) (rows df)
   \<and> length (yielded (fst (iter_csv_lines self df None progress_callback))) = length (rows df) + 1
   \<and> snd (iter_csv_lines self df None progress_callback) = None
   \<and> (0 \<le> n \<and> n \<le> sys_maxsize \<longrightarrow>
        yielded (fst (iter_csv_lines self df (Some n) progress_callback))
          = header_line self (columns df) # map (row_line self (columns df)) (take (nat n) (rows df))
        \<and> length (yielded (fst (iter_csv_lines self df (Some n) progress_callback)))
          = min (nat n) (length (rows df)) + 1
        \<and> snd (iter_csv_lines self df (Some n) progress_callback) = None)"
  by (auto simp: iter_csv_lines_def islice_def Let_def yielded_append yielded_row_loop)

theorem line_count_witness:
  "(0::int) \<le> 1 \<and> 1 \<le> sys_maxsize
   \<and> length (yielded (fst (iter_csv_lines
        \<lparr>separator_var = py '','', custom_separator_var = [], quoting_mode_var = py ''text'',
         quote_choice_var = [DQUOTE], custom_quote_var = [], significant_figures = Map.empty,
         excel_path = True\<rparr>
        \<lparr>columns = [py ''a''], rows = [[PyBool True], [PyNone]]\<rparr> (Some 1) False))) = 2
   \<and> length (yielded (fst (iter_csv_lines
        \<lparr>separator_var = py '','', custom_separator_var = [], quoting_mode_var = py ''text'',
         quote_choice_var = [DQUOTE], custom_quote_var = [], significant_figures = Map.empty,
         excel_path = True\<rparr>
        \<lparr>columns = [py ''a''], rows = [[PyBool True], [PyNone]]\<rparr> None False))) = 3"
  using line_count
    [of "\<lparr>separator_var = py '','', custom_separator_var = [], quoting_mode_var = py ''text'',
         quote_choice_var = [DQUOTE], custom_quote_var = [], significant_figures = Map.empty,
         excel_path = True\<rparr>"
        "\<lparr>columns = [py ''a''], rows = [[PyBool True], [PyNone]]\<rparr>" False 1]
  by (simp add: sys_maxsize_def)

text \<open>
  C9. In a pass without a row limit and with a callback, the callback is called with
  \<open>(0, total)\<close> before the header line is yielded, then with \<open>(k, total)\<close> right after
  the line of row \<open>k\<close> for every multiple \<open>k\<close> of 1000 among the row numbers
  \<open>1, ..., total\<close>, and with \<open>(total, total)\<close> last; the reported row counts never
  decrease. A pass with a row limit, or without a callback, calls nothing.
\<close>

theorem progress_reports:
  "fst (iter_csv_lines self df None True)
     = Progress 0 (length (rows df)) # Yield (header_line self (columns df))
       # concat (map (\<lambda>(k, row). Yield (row_line self (columns df) row)
                         # (if k mod 1000 = 0 then [Progress k (length (rows df))] else []))
                      (zip [1..<length (rows df) + 1] (rows df)))
       @ [Progress (length (rows df)) (length (rows df))]
   \<and> progress_calls (fst (iter_csv_lines self df None True))
     = (0, length (rows df))
       # map (\<lambda>k. (k, length (rows df))) (filter (\<lambda>k. k mod 1000 = 0) [1..<length (rows df) + 1])
       @ [(length (rows df), length (rows df))]
   \<and> sorted (map fst (progress_calls (fst (iter_csv_lines self df None True))))
   \<and> progress_calls (fst (iter_csv_lines self df (Some n) progress_callback)) = []
   \<and> progress_calls (fst (iter_csv_lines self df limit False)) = []"
proof -
  let ?n = "length (rows df)"
  have t: "fst (iter_csv_lines self df None True)
     = Progress 0 ?n # Yield (header_line self (columns df))
       # concat (map (\<lambda>(k, row). Yield (row_line self (columns df) row)
                         # (if k mod 1000 = 0 then [Progress k ?n] else []))
                      (zip [1..<?n + 1] (rows df)))
       @ [Progress ?n ?n]"
    by (simp add: iter_csv_lines_def Let_def row_loop_trace)
  have a: "progress_calls (fst (iter_csv_lines self df None True))
     = (0, ?n) # map (\<lambda>k. (k, ?n)) (filter (\<lambda>k. k mod 1000 = 0) [1..<?n + 1]) @ [(?n, ?n)]"
    by (simp add: iter_csv_lines_def Let_def progress_calls_append progress_calls_row_loop)
  have b: "sorted (0 # filter (\<lambda>k. k mod 1000 = 0) [1..<?n + 1] @ [?n])"
    by (auto simp: sorted_append intro: sorted_wrt_filter)
  have c: "map fst (progress_calls (fst (iter_csv_lines self df None True)))
     = 0 # filter (\<lambda>k. k mod 1000 = 0) [1..<?n + 1] @ [?n]"
    unfolding a by (simp add: comp_def)
  have s: "sorted (map fst (progress_calls (fst (iter_csv_lines self df None True))))"
    unfolding c by (rule b)
  have d: "progress_calls (fst (iter_csv_lines self df (Some n) progress_callback)) = []"
    by (simp add: iter_csv_lines_def islice_def Let_def progress_calls_append
        progress_calls_row_loop_silent)
  have e: "progress_calls (fst (iter_csv_lines self df limit False)) = []"
    by (cases limit) (simp_all add: iter_csv_lines_def islice_def Let_def progress_calls_append
        progress_calls_row_loop_silent)
  show ?thesis
    by (intro conjI) (fact t, fact a, fact s, fact d, fact e)
qed

section \<open>Number formatting\<close>

text \<open>
  The two examples of the specification, on the doubles nearest to 3.14159 and 2.0.
\<close>

lemma format_g_finite_pi: "format_g_finite 3537115888337719 (2 ^ 50) 3 = py ''3.14''"
  by (simp add: format_g_finite_def decimal_exponent_def pow10_le_def scaled_digits_def
      round_half_even_def digits.simps rstrip_def zpad_def py_def ZERO_def Let_def)

lemma format_g_finite_two: "format_g_finite 2 (Suc 0) 3 = py ''2''"
  by (simp add: format_g_finite_def decimal_exponent_def pow10_le_def scaled_digits_def
      round_half_even_def digits.simps rstrip_def zpad_def py_def ZERO_def Let_def)

lemma format_g_pi: "format_g (Finite 3537115888337719 (- 50)) 3 = Inr (py ''3.14'')"
  using format_g_finite_pi by (simp add: format_g_def INT_MAX_def)

lemma format_g_two: "format_g (Finite 2 0) 3 = Inr (py ''2'')"
  using format_g_finite_two by (simp add: format_g_def INT_MAX_def)

lemma format_number_example_pi:
  "format_number (py_float (Finite 3537115888337719 (- 50)) (py ''3.14159'')) (Some 3) = py ''3.14''"
  by (simp add: format_number_def format_attempt_def py_float_def format_g_pi rstrip_def)
     (simp add: py_def)

lemma format_number_example_two:
  "format_number (py_float (Finite 2 0) (py ''2.0'')) (Some 3) = py ''2''"
  by (simp add: format_number_def format_attempt_def py_float_def format_g_two rstrip_def)
     (simp add: py_def)

lemma bit_length_example: "bit_length 15000000000 = 34"
  by (simp add: bit_length.simps)

lemma int_to_float_example: "int_to_float 15000000000 = Inr (Finite 15000000000 0)"
  by (simp add: int_to_float_def bit_length_example)

lemma format_g_finite_example: "format_g_finite 15000000000 (Suc 0) 3 = py ''1.5e+10''"
  by (simp add: format_g_finite_def decimal_exponent_def pow10_le_def scaled_digits_def
      round_half_even_def digits.simps rstrip_def zpad_def py_def ZERO_def Let_def)

text \<open>
  C3. The value 15000000000 with three significant figures: the \<open>g\<close> format gives
  \<open>1.5e+10\<close>, which contains a point, so \<open>rstrip("0")\<close> takes the last digit of the
  exponent away and \<open>format_number\<close> returns \<open>1.5e+1\<close>.
\<close>

theorem exponent_zero_stripped:
  "format_number (py_int 15000000000) (Some 3) = py ''1.5e+1''"
  by (simp add: format_number_def format_attempt_def py_int_def int_to_float_example format_g_def
      INT_MAX_def format_g_finite_example rstrip_def) (simp add: py_def)



section \<open>Dates and times\<close>

lemma datetime_naive_midnight:
  "tzinfo d = None \<Longrightarrow> midnight d \<Longrightarrow>
     convert_value sig_figs (PyDatetime d) column = (date_isoformat d, False)"
  by (simp add: convert_value_def)

lemma datetime_with_time_or_offset:
  "tzinfo d \<noteq> None \<or> \<not> midnight d \<Longrightarrow>
     convert_value sig_figs (PyDatetime d) column = (datetime_isoformat d, False)"
  by (auto simp: convert_value_def)

lemma timestamp_naive_midnight:
  "tzinfo ts = None \<Longrightarrow> midnight ts \<Longrightarrow>
     convert_value sig_figs (PdTimestamp ts) column = (date_isoformat ts, False)"
  by (simp add: convert_value_def)

lemma timestamp_with_time_or_offset:
  "tzinfo ts \<noteq> None \<or> \<not> midnight ts \<Longrightarrow>
     convert_value sig_figs (PdTimestamp ts) column = (timestamp_isoformat ts, False)"
  by (auto simp: convert_value_def)

text \<open>The two examples of the specification.\<close>

lemma datetime_example_midnight:
  "convert_value sig_figs
     (PyDatetime \<lparr>year = 2024, month = 1, day = 15, hour = 0, minute = 0, second = 0,
                  microsecond = 0, tzinfo = None\<rparr>) column
     = (py ''2024-01-15'', False)"
  by (simp add: convert_value_def midnight_def date_isoformat_def zpad_def digits.simps py_def
      ZERO_def replicate_numeral)

lemma datetime_example_morning:
  "convert_value sig_figs
     (PyDatetime \<lparr>year = 2024, month = 1, day = 15, hour = 8, minute = 30, second = 0,
                  microsecond = 0, tzinfo = None\<rparr>) column
     = (py ''2024-01-15T08:30:00'', False)"
  by (simp add: convert_value_def midnight_def datetime_isoformat_def date_isoformat_def zpad_def
      digits.simps py_def ZERO_def replicate_numeral)

text \<open>
  C6. A naive \<open>Timestamp\<close> five nanoseconds after midnight: hour, minute, second and
  microsecond are all zero, so \<open>convert_value\<close> emits the date alone, although the
  ISO form of the value has a time of day.
\<close>

theorem nanosecond_timestamp_loses_time:
  "convert_value sig_figs
     (PdTimestamp \<lparr>year = 2024, month = 1, day = 15, hour = 0, minute = 0, second = 0,
                   microsecond = 0, tzinfo = None, nanosecond = 5\<rparr>) column
     = (py ''2024-01-15'', False)
   \<and> timestamp_isoformat
       \<lparr>year = 2024, month = 1, day = 15, hour = 0, minute = 0, second = 0,
        microsecond = 0, tzinfo = None, nanosecond = 5\<rparr>
     = py ''2024-01-15T00:00:00.000000005''"
  by (simp add: convert_value_def midnight_def timestamp_isoformat_def datetime_isoformat_def
      date_isoformat_def zpad_def digits.simps py_def ZERO_def replicate_numeral)

section \<open>An empty separator\<close>

text \<open>
  C4, as stated, fails: with the custom separator chosen and left empty,
  \<open>iter_csv_lines\<close> raises nothing and joins the fields with a comma.
\<close>

theorem empty_separator_counterexample:
  "\<not> truthy (get_separator
       \<lparr>separator_var = CUSTOM, custom_separator_var = [], quoting_mode_var = py ''none'',
        quote_choice_var = [DQUOTE], custom_quote_var = [], significant_figures = Map.empty,
        excel_path = True\<rparr>)
   \<and> iter_csv_lines
       \<lparr>separator_var = CUSTOM, custom_separator_var = [], quoting_mode_var = py ''none'',
        quote_choice_var = [DQUOTE], custom_quote_var = [], significant_figures = Map.empty,
        excel_path = True\<rparr>
       \<lparr>columns = [py ''a'', py ''b''], rows = [[PyNumber (py_int 1), PyNumber (py_int 2)]]\<rparr>
       None False
     = ([Yield (py ''a,b''), Yield (py ''1,2'')], None)"
  by (simp add: eval_defs iter_csv_lines_def header_line_def row_line_def format_cells_def
      needs_quote_iff convert_value_def py_int_def format_number_def str_int_def digits_small)

text \<open>
  C4, amended. When \<open>get_separator\<close> gives nothing, \<open>validate_settings\<close> fails;
  \<open>save_csv\<close> then starts no conversion, and shows the separator error when a workbook
  is selected; \<open>refresh_preview\<close> leaves the preview as it is. \<open>iter_csv_lines\<close> itself
  falls back to \<open>DEFAULT_SEPARATOR\<close>.
\<close>

theorem empty_separator_rejected_by_validation:
  assumes "\<not> truthy (get_separator self)"
  shows "\<not> fst (validate_settings self show_dialog)
         \<and> snd (save_csv self filename) = None
         \<and> (excel_path self \<longrightarrow>
              fst (save_csv self filename)
                = [ShowError (py ''Invalid separator'') (py ''Please provide a non-empty separator.'')])
         \<and> refresh_preview self df = None
         \<and> resolved_separator self = DEFAULT_SEPARATOR"
  using assms
  by (simp add: validate_settings_def save_csv_def refresh_preview_def resolved_separator_def Let_def)

theorem empty_separator_rejected_by_validation_witness:
  "\<not> truthy (get_separator
       \<lparr>separator_var = CUSTOM, custom_separator_var = [], quoting_mode_var = py ''none'',
        quote_choice_var = [DQUOTE], custom_quote_var = [], significant_figures = Map.empty,
        excel_path = True\<rparr>)
   \<and> save_csv
       \<lparr>separator_var = CUSTOM, custom_separator_var = [], quoting_mode_var = py ''none'',
        quote_choice_var = [DQUOTE], custom_quote_var = [], significant_figures = Map.empty,
        excel_path = True\<rparr> (py ''out.csv'')
     = ([ShowError (py ''Invalid separator'') (py ''Please provide a non-empty separator.'')], None)
   \<and> refresh_preview
       \<lparr>separator_var = CUSTOM, custom_separator_var = [], quoting_mode_var = py ''none'',
        quote_choice_var = [DQUOTE], custom_quote_var = [], significant_figures = Map.empty,
        excel_path = True\<rparr>
       \<lparr>columns = [py ''a''], rows = []\<rparr> = None"
  using empty_separator_rejected_by_validation
    [of "\<lparr>separator_var = CUSTOM, custom_separator_var = [], quoting_mode_var = py ''none'',
        quote_choice_var = [DQUOTE], custom_quote_var = [], significant_figures = Map.empty,
        excel_path = True\<rparr>" True "py ''out.csv''" "\<lparr>columns = [py ''a''], rows = []\<rparr>"]
  by (simp add: get_separator_def prod_eq_iff)

end
